theory Spec2Isabelle
  imports Main "HOL-Library.Word"
begin

unbundle bit_operations_syntax

section \<open>Error model\<close>

type_synonym byte = "8 word"

text \<open>\<^verbatim>\<open>type ErrorCode uint16\<close> with its stable numeric constants.\<close>

type_synonym ErrorCode = "16 word"

definition ErrCodeUnknown :: ErrorCode where "ErrCodeUnknown = 0"
definition ErrCodeInvalidVersion :: ErrorCode where "ErrCodeInvalidVersion = 1001"
definition ErrCodeFrameTooLarge :: ErrorCode where "ErrCodeFrameTooLarge = 1002"
definition ErrCodeBadFrame :: ErrorCode where "ErrCodeBadFrame = 1003"
definition ErrCodeBadPayload :: ErrorCode where "ErrCodeBadPayload = 1004"
definition ErrCodeUnauthorized :: ErrorCode where "ErrCodeUnauthorized = 2001"
definition ErrCodeAuthExpired :: ErrorCode where "ErrCodeAuthExpired = 2002"
definition ErrCodeStreamNotFound :: ErrorCode where "ErrCodeStreamNotFound = 3001"
definition ErrCodeStreamClosed :: ErrorCode where "ErrCodeStreamClosed = 3002"

record ProtocolError =
  Code :: ErrorCode
  Msg :: string

text \<open>
  Go's \<^verbatim>\<open>error\<close> interface, restricted to the values that can flow through the codec:
  the codec's own \<^verbatim>\<open>*ProtocolError\<close>, the two end-of-input values of package \<^verbatim>\<open>io\<close>
  (\<^verbatim>\<open>io.EOF\<close>, \<^verbatim>\<open>io.ErrUnexpectedEOF\<close>), and whatever error a caller-supplied sink
  reports from \<^verbatim>\<open>Write\<close>. A nil error is \<open>None\<close> of \<open>error option\<close>.
\<close>

datatype error =
    PErr ProtocolError
  | EOF
  | ErrUnexpectedEOF
  | SinkErr string

definition NewError :: "ErrorCode \<Rightarrow> string \<Rightarrow> ProtocolError" where
  "NewError code msg = \<lparr>Code = code, Msg = msg\<rparr>"

text \<open>
  \<^verbatim>\<open>IsProtocolError(err) (*ProtocolError, bool)\<close>: \<open>(nil, false)\<close> for a nil error and
  for an error of another dynamic type.
\<close>

fun IsProtocolError :: "error option \<Rightarrow> ProtocolError option \<times> bool" where
  "IsProtocolError None = (None, False)"
| "IsProtocolError (Some (PErr pe)) = (Some pe, True)"
| "IsProtocolError (Some _) = (None, False)"

section \<open>Constants\<close>

definition Version_const :: byte where "Version_const = 1"

definition Magic0 :: byte where "Magic0 = 0x52"
definition Magic1 :: byte where "Magic1 = 0x54"

definition FrameAuth :: byte where "FrameAuth = 0x01"
definition FrameOpenStream :: byte where "FrameOpenStream = 0x02"
definition FrameData :: byte where "FrameData = 0x03"
definition FrameClose :: byte where "FrameClose = 0x04"
definition FrameHeartbeat :: byte where "FrameHeartbeat = 0x05"

text \<open>\<^verbatim>\<open>HeaderSize\<close> and \<^verbatim>\<open>MaxFrameSize\<close> are untyped Go constants.\<close>

definition HeaderSize :: nat where "HeaderSize = 9"
definition MaxFrameSize :: nat where "MaxFrameSize = 16 * 1024 * 1024"

definition StreamIDControl :: "32 word" where "StreamIDControl = 0"

definition FlagNone :: byte where "FlagNone = 0"
definition FlagEndStream :: byte where "FlagEndStream = push_bit 0 1"
definition FlagAck :: byte where "FlagAck = push_bit 1 1"
definition FlagError :: byte where "FlagError = push_bit 2 1"

section \<open>Frames\<close>

record Frame =
  Version :: byte
  Type :: byte
  Flags :: byte
  StreamID :: "32 word"
  Payload :: "byte list"

subsection \<open>Big-endian 32-bit integers (encoding/binary)\<close>

text \<open>\<^verbatim>\<open>binary.BigEndian.PutUint32\<close>: the four bytes, most significant first.\<close>

definition PutUint32 :: "32 word \<Rightarrow> byte list" where
  "PutUint32 v = [ucast (drop_bit 24 v), ucast (drop_bit 16 v), ucast (drop_bit 8 v), ucast v]"

text \<open>
  \<^verbatim>\<open>binary.BigEndian.Uint32(b)\<close>, on the four-byte slices the codec passes to it; Go
  panics on a shorter slice, which the codec never produces (the model returns 0 there).
\<close>

fun Uint32 :: "byte list \<Rightarrow> 32 word" where
  "Uint32 (b0 # b1 # b2 # b3 # _) =
     push_bit 24 (ucast b0) OR push_bit 16 (ucast b1) OR push_bit 8 (ucast b2) OR ucast b3"
| "Uint32 _ = 0"

subsection \<open>Byte sinks and sources (io.Writer, io.Reader)\<close>

text \<open>
  A sink is any \<^verbatim>\<open>io.Writer\<close>: a state \<open>'w\<close> and a \<^verbatim>\<open>Write\<close> method that takes the
  bytes and returns the error (nil is \<open>None\<close>) with the sink's new state. \<^verbatim>\<open>Encode\<close>
  discards the byte count \<^verbatim>\<open>Write\<close> returns and looks at the error only.
\<close>

type_synonym 'w writer = "'w \<Rightarrow> byte list \<Rightarrow> error option \<times> 'w"

text \<open>\<^verbatim>\<open>bytes.Buffer\<close>: \<^verbatim>\<open>Write\<close> appends and never fails.\<close>

definition buffer_Write :: "(byte list) writer" where
  "buffer_Write buf p = (None, buf @ p)"

text \<open>
  A sink that accepts \<open>room\<close> more bytes and then fails, as a connection closed by the
  peer does: a \<^verbatim>\<open>Write\<close> that does not fit stores the prefix that fits and returns
  an error. Its state is the bytes stored and the room left.
\<close>

definition limited_Write :: "(byte list \<times> nat) writer" where
  "limited_Write w p =
     (case w of (stored, room) \<Rightarrow>
        if length p \<le> room then (None, (stored @ p, room - length p))
        else (Some (SinkErr ''short write''), (stored @ take room p, 0)))"

text \<open>
  The contract of \<^verbatim>\<open>io.Writer\<close> that matters to a caller reading the sink back: a
  \<^verbatim>\<open>Write\<close> that returns a nil error has appended all of its argument to the sink's
  content, \<open>out\<close> being the content of a sink state.
\<close>

definition writer_appends :: "'w writer \<Rightarrow> ('w \<Rightarrow> byte list) \<Rightarrow> bool" where
  "writer_appends wr out \<longleftrightarrow> (\<forall>w p w'. wr w p = (None, w') \<longrightarrow> out w' = out w @ p)"

text \<open>
  A source is the bytes it still holds before its end (a \<^verbatim>\<open>bytes.Reader\<close>, or a
  connection that the peer closes after them).

  \<^verbatim>\<open>io.ReadFull(r, buf)\<close> with \<open>n = len(buf)\<close>: the \<open>n\<close> bytes when the source holds
  them; otherwise the source is drained and the error is \<^verbatim>\<open>io.EOF\<close> when no byte was
  read and \<^verbatim>\<open>io.ErrUnexpectedEOF\<close> when some were. For \<open>n = 0\<close> nothing is read.
\<close>

type_synonym reader = "byte list"

definition ReadFull :: "reader \<Rightarrow> nat \<Rightarrow> (error + byte list) \<times> reader" where
  "ReadFull r n =
     (if n \<le> length r then (Inr (take n r), drop n r)
      else if r = [] then (Inl EOF, [])
      else (Inl ErrUnexpectedEOF, []))"

text \<open>
  \<^verbatim>\<open>binary.Write(w, binary.BigEndian, v)\<close> for a \<^verbatim>\<open>uint32\<close>: one \<^verbatim>\<open>Write\<close> of the
  four bytes. \<^verbatim>\<open>binary.Read(r, binary.BigEndian, &v)\<close>: \<^verbatim>\<open>io.ReadFull\<close> of four
  bytes, its error returned as it is.
\<close>

definition binary_Write :: "'w writer \<Rightarrow> 'w \<Rightarrow> 32 word \<Rightarrow> error option \<times> 'w" where
  "binary_Write wr w v = wr w (PutUint32 v)"

definition binary_Read :: "reader \<Rightarrow> (error + 32 word) \<times> reader" where
  "binary_Read r =
     (case ReadFull r 4 of
        (Inl e, r') \<Rightarrow> (Inl e, r')
      | (Inr bs, r') \<Rightarrow> (Inr (Uint32 bs), r'))"

subsection \<open>Encode\<close>

text \<open>
  \<^verbatim>\<open>length := uint32(HeaderSize + len(f.Payload))\<close>: the sum is an \<^verbatim>\<open>int\<close> (64 bits
  on the platforms where a slice can be that long) and the conversion keeps its low 32
  bits, which is \<open>word_of_nat\<close>. The result is the error and the sink's state.
\<close>

definition Encode :: "'w writer \<Rightarrow> 'w \<Rightarrow> Frame \<Rightarrow> error option \<times> 'w" where
  "Encode wr w f =
     (if Version f \<noteq> Version_const
      then (Some (PErr (NewError ErrCodeInvalidVersion ''invalid protocol version'')), w)
      else
        let len = (word_of_nat (HeaderSize + length (Payload f)) :: 32 word) in
        if unat len > MaxFrameSize
        then (Some (PErr (NewError ErrCodeFrameTooLarge ''frame too large'')), w)
        else
          (case binary_Write wr w len of
             (Some e, w1) \<Rightarrow> (Some e, w1)
           | (None, w1) \<Rightarrow>
          (case wr w1 [Magic0, Magic1] of
             (Some e, w2) \<Rightarrow> (Some e, w2)
           | (None, w2) \<Rightarrow>
          (case wr w2 [Version f, Type f, Flags f] of
             (Some e, w3) \<Rightarrow> (Some e, w3)
           | (None, w3) \<Rightarrow>
          (case binary_Write wr w3 (StreamID f) of
             (Some e, w4) \<Rightarrow> (Some e, w4)
           | (None, w4) \<Rightarrow>
          (if length (Payload f) > 0 then wr w4 (Payload f)
           else (None, w4)))))))"

subsection \<open>Decode\<close>

definition IsValidFrameType :: "byte \<Rightarrow> bool" where
  "IsValidFrameType frameType \<longleftrightarrow>
     frameType = FrameAuth \<or> frameType = FrameOpenStream \<or> frameType = FrameData
     \<or> frameType = FrameClose \<or> frameType = FrameHeartbeat"

text \<open>
  The result is the frame or the error, with the source's state after the call.
  \<open>buf\<close> has \<open>length\<close> bytes, at least \<open>HeaderSize\<close>, so every index below is in range.
\<close>

definition Decode :: "reader \<Rightarrow> (error + Frame) \<times> reader" where
  "Decode r =
     (case binary_Read r of
        (Inl e, r1) \<Rightarrow> (Inl e, r1)
      | (Inr len, r1) \<Rightarrow>
          if unat len < HeaderSize \<or> unat len > MaxFrameSize
          then (Inl (PErr (NewError ErrCodeBadFrame ''invalid frame size'')), r1)
          else
            (case ReadFull r1 (unat len) of
               (Inl e, r2) \<Rightarrow> (Inl e, r2)
             | (Inr buf, r2) \<Rightarrow>
                 if buf ! 0 \<noteq> Magic0 \<or> buf ! 1 \<noteq> Magic1
                 then (Inl (PErr (NewError ErrCodeBadFrame ''invalid magic marker'')), r2)
                 else if buf ! 2 \<noteq> Version_const
                 then (Inl (PErr (NewError ErrCodeInvalidVersion ''invalid protocol version'')), r2)
                 else
                   let frameType = buf ! 3 in
                   if \<not> IsValidFrameType frameType
                   then (Inl (PErr (NewError ErrCodeBadFrame ''invalid frame type'')), r2)
                   else
                     let streamID = Uint32 (take 4 (drop 5 buf)) in
                     (Inr \<lparr>Version = buf ! 2, Type = frameType, Flags = buf ! 4,
                           StreamID = streamID, Payload = drop HeaderSize buf\<rparr>, r2)))"

subsection \<open>Predicates\<close>

definition IsControlFrame :: "Frame \<Rightarrow> bool" where
  "IsControlFrame f \<longleftrightarrow> StreamID f = StreamIDControl"

definition IsDataStream :: "Frame \<Rightarrow> bool" where
  "IsDataStream f \<longleftrightarrow> StreamID f > StreamIDControl"

definition HasFlag :: "Frame \<Rightarrow> byte \<Rightarrow> bool" where
  "HasFlag f flag \<longleftrightarrow> (Flags f AND flag) \<noteq> 0"

definition IsEndStream :: "Frame \<Rightarrow> bool" where
  "IsEndStream f = HasFlag f FlagEndStream"

definition IsError :: "Frame \<Rightarrow> bool" where
  "IsError f = HasFlag f FlagError"

definition IsAck :: "Frame \<Rightarrow> bool" where
  "IsAck f = HasFlag f FlagAck"


subsection \<open>A frame beyond the 32-bit length\<close>

text \<open>
  A data frame with the supported version whose payload has \<open>2^32 - 9\<close> bytes, so that
  \<^verbatim>\<open>HeaderSize + len(f.Payload)\<close> is \<open>2^32\<close>.
\<close>

definition oversized_frame :: Frame where
  "oversized_frame =
     \<lparr>Version = Version_const, Type = FrameData, Flags = FlagNone, StreamID = 1,
      Payload = replicate 4294967287 0\<rparr>"

section \<open>Basic facts\<close>

lemma PutUint32_example: "PutUint32 0x01020304 = [0x01, 0x02, 0x03, 0x04]"
  by (simp add: PutUint32_def)

lemma length_PutUint32: "length (PutUint32 v) = 4"
  by (simp add: PutUint32_def)

lemma Uint32_PutUint32: "Uint32 (PutUint32 v) = v"
proof -
  have "bit (Uint32 (PutUint32 v)) n = bit v n" for n
  proof -
    consider "n < 8" | "8 \<le> n" "n < 16" | "16 \<le> n" "n < 24" | "24 \<le> n"
      by linarith
    then show ?thesis
      by cases (auto simp add: PutUint32_def bit_simps dest: bit_imp_le_length)
  qed
  then show ?thesis by (rule bit_word_eqI)
qed

lemma unat_len: "n \<le> MaxFrameSize \<Longrightarrow> unat (word_of_nat n :: 32 word) = n"
  by (simp add: MaxFrameSize_def unat_of_nat take_bit_nat_eq_self)

lemma take_exact: "length xs = n \<Longrightarrow> take n (xs @ ys) = xs"
  by simp

lemma drop_exact: "length xs = n \<Longrightarrow> drop n (xs @ ys) = ys"
  by simp

lemma IsValidFrameType_iff:
  "IsValidFrameType t \<longleftrightarrow> t = 1 \<or> t = 2 \<or> t = 3 \<or> t = 4 \<or> t = 5"
  by (simp add: IsValidFrameType_def FrameAuth_def FrameOpenStream_def FrameData_def
      FrameClose_def FrameHeartbeat_def)

lemma binary_Read_ok: "4 \<le> length r \<Longrightarrow> binary_Read r = (Inr (Uint32 (take 4 r)), drop 4 r)"
  by (simp add: binary_Read_def ReadFull_def)

lemma ReadFull_ok: "n \<le> length r \<Longrightarrow> ReadFull r n = (Inr (take n r), drop n r)"
  by (simp add: ReadFull_def)

text \<open>
  \<open>Decode\<close> on a source that holds the four length bytes, a declared length in range
  and at least that many bytes after it: the checks of the body, in the order of the code.
\<close>

lemma Decode_complete:
  assumes len4: "4 \<le> length r"
    and lo: "HeaderSize \<le> unat (Uint32 (take 4 r))"
    and hi: "unat (Uint32 (take 4 r)) \<le> MaxFrameSize"
    and full: "4 + unat (Uint32 (take 4 r)) \<le> length r"
  shows "Decode r =
     (let buf = take (unat (Uint32 (take 4 r))) (drop 4 r);
          r2 = drop (4 + unat (Uint32 (take 4 r))) r in
      if buf ! 0 \<noteq> Magic0 \<or> buf ! 1 \<noteq> Magic1
      then (Inl (PErr (NewError ErrCodeBadFrame ''invalid magic marker'')), r2)
      else if buf ! 2 \<noteq> Version_const
      then (Inl (PErr (NewError ErrCodeInvalidVersion ''invalid protocol version'')), r2)
      else if \<not> IsValidFrameType (buf ! 3)
      then (Inl (PErr (NewError ErrCodeBadFrame ''invalid frame type'')), r2)
      else (Inr \<lparr>Version = buf ! 2, Type = buf ! 3, Flags = buf ! 4,
                 StreamID = Uint32 (take 4 (drop 5 buf)), Payload = drop HeaderSize buf\<rparr>, r2))"
proof -
  from full have "unat (Uint32 (take 4 r)) \<le> length (drop 4 r)"
    by simp
  then have body: "ReadFull (drop 4 r) (unat (Uint32 (take 4 r))) =
      (Inr (take (unat (Uint32 (take 4 r))) (drop 4 r)), drop (4 + unat (Uint32 (take 4 r))) r)"
    by (simp add: ReadFull_ok add.commute)
  from lo hi show ?thesis
    by (simp add: Decode_def binary_Read_ok [OF len4] body Let_def)
qed

text \<open>
  Whatever \<open>Encode\<close> hands to a sink that keeps the \<^verbatim>\<open>io.Writer\<close> contract: when it
  returns no error, the sink has grown by the length bytes, the marker, the three
  header bytes, the stream ID and the payload, in this order. The length bytes are
  those of the 32-bit value \<open>(HeaderSize + len) mod 2^32\<close>.
\<close>

lemma Encode_success_layout:
  assumes wr: "writer_appends wr out" and ok: "Encode wr w f = (None, w')"
  shows "out w' = out w @ PutUint32 (word_of_nat (HeaderSize + length (Payload f)))
           @ [Magic0, Magic1] @ [Version f, Type f, Flags f] @ PutUint32 (StreamID f) @ Payload f"
proof -
  have app: "out b = out a @ p" if "wr a p = (None, b)" for a b p
    using wr that unfolding writer_appends_def by blast
  from ok show ?thesis
    by (auto simp add: Encode_def binary_Write_def Let_def
        split: if_splits prod.splits option.splits dest!: app)
qed

lemma writer_appends_buffer_Write: "writer_appends buffer_Write (\<lambda>buf. buf)"
  by (simp add: writer_appends_def buffer_Write_def)

lemma writer_appends_limited_Write: "writer_appends limited_Write fst"
  by (auto simp add: writer_appends_def limited_Write_def split: if_splits)

text \<open>
  Into a \<^verbatim>\<open>bytes.Buffer\<close>, a frame of the supported version that fits
  \<open>MaxFrameSize\<close> is written whole: \<open>13 + len\<close> bytes, the first four being the
  big-endian value \<open>9 + len\<close>.
\<close>

lemma Encode_buffer_Write:
  assumes "Version f = Version_const" and "HeaderSize + length (Payload f) \<le> MaxFrameSize"
  shows "Encode buffer_Write buf f =
     (None, buf @ PutUint32 (word_of_nat (HeaderSize + length (Payload f)))
           @ [Magic0, Magic1] @ [Version f, Type f, Flags f] @ PutUint32 (StreamID f) @ Payload f)"
  using assms
  by (simp add: Encode_def binary_Write_def buffer_Write_def unat_len Let_def del: of_nat_add)

lemma Encode_buffer_Write_length:
  assumes "Version f = Version_const" and "HeaderSize + length (Payload f) \<le> MaxFrameSize"
  shows "length (snd (Encode buffer_Write [] f)) = 13 + length (Payload f)
     \<and> unat (Uint32 (take 4 (snd (Encode buffer_Write [] f)))) = 9 + length (Payload f)"
  using assms
  by (simp add: Encode_buffer_Write length_PutUint32 Uint32_PutUint32 unat_len HeaderSize_def
      del: of_nat_add)

text \<open>
  The size check rejects every oversized frame whose \<open>HeaderSize + len\<close> still fits
  32 bits, before any \<^verbatim>\<open>Write\<close>.
\<close>

lemma Encode_too_large_in_range:
  assumes "Version f = Version_const" and "MaxFrameSize < HeaderSize + length (Payload f)"
    and "HeaderSize + length (Payload f) < 2 ^ 32"
  shows "Encode wr w f = (Some (PErr (NewError ErrCodeFrameTooLarge ''frame too large'')), w)"
  using assms
  by (simp add: Encode_def unat_of_nat take_bit_nat_eq_self Let_def del: of_nat_add)

section \<open>Round trip\<close>

text \<open>
  C1. For every frame with the supported version, one of the five frame types, any flags
  byte, any 32-bit stream ID and a payload of at most \<open>MaxFrameSize - HeaderSize\<close> bytes
  (zero and the maximum included), encoding into an empty buffer succeeds, and decoding
  those bytes gives the frame back, field for field. The payload is compared as a byte
  sequence. Bytes that follow the frame in the source are left unread.
\<close>

theorem Decode_Encode_roundtrip:
  assumes ver: "Version f = Version_const"
    and ty: "IsValidFrameType (Type f)"
    and sz: "length (Payload f) \<le> MaxFrameSize - HeaderSize"
  shows "fst (Encode buffer_Write [] f) = None
     \<and> Decode (snd (Encode buffer_Write [] f) @ rest) = (Inr f, rest)"
proof -
  let ?n = "HeaderSize + length (Payload f)"
  let ?L = "word_of_nat ?n :: 32 word"
  let ?body = "[Magic0, Magic1] @ [Version f, Type f, Flags f] @ PutUint32 (StreamID f) @ Payload f"
  let ?r = "PutUint32 ?L @ ?body @ rest"
  from sz have fits: "?n \<le> MaxFrameSize"
    by (simp add: MaxFrameSize_def HeaderSize_def)
  have enc: "Encode buffer_Write [] f = (None, PutUint32 ?L @ ?body)"
    using Encode_buffer_Write [OF ver fits, of "[]"] by simp
  have L: "unat ?L = ?n"
    using fits by (rule unat_len)
  have t4: "take 4 ?r = PutUint32 ?L"
    by (simp add: length_PutUint32)
  have d4: "drop 4 ?r = ?body @ rest"
    by (simp add: length_PutUint32)
  have lb: "length ?body = ?n"
    by (simp add: length_PutUint32 HeaderSize_def)
  have len: "Uint32 (take 4 ?r) = ?L"
    unfolding t4 by (rule Uint32_PutUint32)
  have buf: "take ?n (drop 4 ?r) = ?body"
    by (subst d4) (rule take_exact [OF lb])
  have "drop (4 + ?n) ?r = drop ?n (drop 4 ?r)"
    by (simp only: drop_drop add.commute)
  also have "\<dots> = rest"
    by (subst d4) (rule drop_exact [OF lb])
  finally have rest: "drop (4 + ?n) ?r = rest" .
  have sid: "Uint32 (take 4 (drop 5 ?body)) = StreamID f"
    by (simp add: length_PutUint32 Uint32_PutUint32)
  have pay: "drop HeaderSize ?body = Payload f"
    by (simp add: HeaderSize_def length_PutUint32)
  have c1: "4 \<le> length ?r"
    by (simp add: length_PutUint32)
  have c2: "HeaderSize \<le> unat (Uint32 (take 4 ?r))"
    unfolding len L by simp
  have c3: "unat (Uint32 (take 4 ?r)) \<le> MaxFrameSize"
    unfolding len L by (rule fits)
  have c4: "4 + unat (Uint32 (take 4 ?r)) \<le> length ?r"
    unfolding len L using lb by (simp add: length_PutUint32)
  have "Decode ?r = (Inr f, rest)"
    unfolding Decode_complete [OF c1 c2 c3 c4] len L Let_def buf rest sid pay
    using ver ty by simp
  with enc show ?thesis by simp
qed

text \<open>
  The heartbeat frame on the control stream with an empty payload, and a data frame
  with a payload of the maximum length, \<open>16777207\<close> bytes, followed by one more byte
  in the source.
\<close>

theorem Decode_Encode_roundtrip_witness:
  "Decode (snd (Encode buffer_Write []
      \<lparr>Version = 1, Type = 5, Flags = 0, StreamID = 0, Payload = []\<rparr>))
     = (Inr \<lparr>Version = 1, Type = 5, Flags = 0, StreamID = 0, Payload = []\<rparr>, [])
   \<and> Decode (snd (Encode buffer_Write []
      \<lparr>Version = 1, Type = 3, Flags = 1, StreamID = 1, Payload = replicate 16777207 0xAB\<rparr>) @ [7])
     = (Inr \<lparr>Version = 1, Type = 3, Flags = 1, StreamID = 1, Payload = replicate 16777207 0xAB\<rparr>, [7])"
  using Decode_Encode_roundtrip
          [of "\<lparr>Version = 1, Type = 5, Flags = 0, StreamID = 0, Payload = []\<rparr>" "[]"]
        Decode_Encode_roundtrip
          [of "\<lparr>Version = 1, Type = 3, Flags = 1, StreamID = 1, Payload = replicate 16777207 0xAB\<rparr>" "[7]"]
  by (simp add: Version_const_def IsValidFrameType_iff MaxFrameSize_def HeaderSize_def)

section \<open>The declared length\<close>

text \<open>
  C2, as stated, fails: a declared length above \<open>MaxFrameSize\<close> is not rejected with
  \<open>ErrCodeFrameTooLarge\<close>. The four bytes \<open>01 00 00 01\<close> declare \<open>16777217\<close>, and
  \<open>Decode\<close> answers \<open>ErrCodeBadFrame\<close> with the message "invalid frame size".
\<close>

theorem Decode_oversize_is_BadFrame:
  "MaxFrameSize < unat (Uint32 [0x01, 0x00, 0x00, 0x01])
   \<and> Decode [0x01, 0x00, 0x00, 0x01]
       = (Inl (PErr \<lparr>Code = ErrCodeBadFrame, Msg = ''invalid frame size''\<rparr>), [])
   \<and> ErrCodeBadFrame \<noteq> ErrCodeFrameTooLarge"
  by (simp add: Decode_def binary_Read_def ReadFull_def MaxFrameSize_def HeaderSize_def
      NewError_def ErrCodeBadFrame_def ErrCodeFrameTooLarge_def)

text \<open>
  C2, amended. When the source holds the four length bytes and the declared length is
  below \<open>HeaderSize\<close> or above \<open>MaxFrameSize\<close>, \<open>Decode\<close> fails with the protocol error
  \<open>ErrCodeBadFrame\<close> ("invalid frame size") in both cases, returns no frame, and has
  read the four length bytes only: the body is still in the source.
\<close>

theorem Decode_rejects_declared_length:
  assumes "4 \<le> length r"
    and "unat (Uint32 (take 4 r)) < HeaderSize \<or> MaxFrameSize < unat (Uint32 (take 4 r))"
  shows "Decode r = (Inl (PErr (NewError ErrCodeBadFrame ''invalid frame size'')), drop 4 r)"
  using assms by (auto simp add: Decode_def binary_Read_ok)

theorem Decode_rejects_declared_length_witness:
  "Decode [0x01, 0x00, 0x00, 0x01, 0x52, 0x54, 0x01, 0x03]
     = (Inl (PErr \<lparr>Code = 1003, Msg = ''invalid frame size''\<rparr>), [0x52, 0x54, 0x01, 0x03])
   \<and> Decode [0x00, 0x00, 0x00, 0x08, 0x52, 0x54, 0x01, 0x03, 0x00, 0x00, 0x00, 0x00]
     = (Inl (PErr \<lparr>Code = 1003, Msg = ''invalid frame size''\<rparr>),
        [0x52, 0x54, 0x01, 0x03, 0x00, 0x00, 0x00, 0x00])"
  using Decode_rejects_declared_length [of "[0x01, 0x00, 0x00, 0x01, 0x52, 0x54, 0x01, 0x03]"]
        Decode_rejects_declared_length
          [of "[0x00, 0x00, 0x00, 0x08, 0x52, 0x54, 0x01, 0x03, 0x00, 0x00, 0x00, 0x00]"]
  by (simp add: MaxFrameSize_def HeaderSize_def NewError_def ErrCodeBadFrame_def)

section \<open>Encode: the size check\<close>

text \<open>
  C3 at the frame \<open>oversized_frame\<close>: the version is the supported one and
  \<open>HeaderSize + len\<close> is \<open>2^32\<close>, far above \<open>MaxFrameSize\<close>, yet \<open>Encode\<close> returns no
  error and writes the whole frame to the buffer, with a length field of 0. The 32-bit
  conversion of \<open>HeaderSize + len\<close> wraps to 0 before it is compared with \<open>MaxFrameSize\<close>.
\<close>

theorem Encode_oversized_not_rejected:
  "MaxFrameSize < HeaderSize + length (Payload oversized_frame)
   \<and> Version oversized_frame = Version_const
   \<and> Encode buffer_Write [] oversized_frame =
       (None, [0, 0, 0, 0, 0x52, 0x54, 1, 3, 0, 0, 0, 0, 1] @ replicate 4294967287 0)"
  by (simp add: oversized_frame_def Encode_def binary_Write_def buffer_Write_def PutUint32_def
      HeaderSize_def MaxFrameSize_def Version_const_def Magic0_def Magic1_def FrameData_def
      FlagNone_def)

section \<open>Encode: the version check\<close>

text \<open>
  C4. For every frame whose version is not the supported one, whatever its other fields,
  \<open>Encode\<close> fails with \<open>ErrCodeInvalidVersion\<close> and leaves the sink as it was, for every
  sink and every state of it: no \<^verbatim>\<open>Write\<close> is made.
\<close>

theorem Encode_rejects_version:
  assumes "Version f \<noteq> Version_const"
  shows "Encode wr w f
     = (Some (PErr (NewError ErrCodeInvalidVersion ''invalid protocol version'')), w)"
  using assms by (simp add: Encode_def)

text \<open>
  The frame of the version test, into an empty buffer and into a sink that would fail
  on its first byte.
\<close>

theorem Encode_rejects_version_witness:
  "Encode buffer_Write [] \<lparr>Version = 0xFF, Type = FrameAuth, Flags = FlagNone,
      StreamID = StreamIDControl, Payload = [0x74, 0x65, 0x73, 0x74]\<rparr>
     = (Some (PErr \<lparr>Code = 1001, Msg = ''invalid protocol version''\<rparr>), [])
   \<and> Encode limited_Write ([], 0) \<lparr>Version = 0xFF, Type = FrameAuth, Flags = FlagNone,
      StreamID = StreamIDControl, Payload = [0x74, 0x65, 0x73, 0x74]\<rparr>
     = (Some (PErr \<lparr>Code = 1001, Msg = ''invalid protocol version''\<rparr>), ([], 0))"
  using Encode_rejects_version [of "\<lparr>Version = 0xFF, Type = FrameAuth, Flags = FlagNone,
            StreamID = StreamIDControl, Payload = [0x74, 0x65, 0x73, 0x74]\<rparr>" buffer_Write "[]"]
        Encode_rejects_version [of "\<lparr>Version = 0xFF, Type = FrameAuth, Flags = FlagNone,
            StreamID = StreamIDControl, Payload = [0x74, 0x65, 0x73, 0x74]\<rparr>"
            limited_Write "([], 0)"]
  by (simp add: Version_const_def NewError_def ErrCodeInvalidVersion_def)

section \<open>Encode: the bytes written\<close>

text \<open>
  C5 at the frame \<open>oversized_frame\<close>: \<open>Encode\<close> succeeds, and the four length bytes it
  writes hold 0, not \<open>9 + len(payload)\<close>, which is \<open>4294967296\<close>. This is the wrap-around
  of the size check seen from the bytes written.
\<close>

theorem Encode_oversized_length_field:
  "fst (Encode buffer_Write [] oversized_frame) = None
   \<and> unat (Uint32 (take 4 (snd (Encode buffer_Write [] oversized_frame)))) = 0
   \<and> HeaderSize + length (Payload oversized_frame) = 4294967296"
  by (simp add: oversized_frame_def Encode_def binary_Write_def buffer_Write_def PutUint32_def
      HeaderSize_def MaxFrameSize_def Version_const_def)

section \<open>Decode: marker and type\<close>

text \<open>
  C6. For every input that holds the length bytes, a declared length in range and the
  bytes it declares, and whose first or second marker byte is not \<open>0x52\<close>, \<open>0x54\<close>,
  \<open>Decode\<close> fails with \<open>ErrCodeBadFrame\<close> ("invalid magic marker") and returns no frame.
  Nothing is assumed of the version, type, flags and stream ID bytes: the marker is
  checked before them. An encoded frame with a corrupted marker is such an input.
\<close>

theorem Decode_rejects_magic:
  assumes "4 \<le> length r"
    and "HeaderSize \<le> unat (Uint32 (take 4 r))"
    and "unat (Uint32 (take 4 r)) \<le> MaxFrameSize"
    and "4 + unat (Uint32 (take 4 r)) \<le> length r"
    and "r ! 4 \<noteq> Magic0 \<or> r ! 5 \<noteq> Magic1"
  shows "Decode r = (Inl (PErr (NewError ErrCodeBadFrame ''invalid magic marker'')),
                     drop (4 + unat (Uint32 (take 4 r))) r)"
proof -
  from assms(2) have "0 < unat (Uint32 (take 4 r))" "1 < unat (Uint32 (take 4 r))"
    by (simp_all add: HeaderSize_def)
  then have "take (unat (Uint32 (take 4 r))) (drop 4 r) ! 0 = r ! 4"
    "take (unat (Uint32 (take 4 r))) (drop 4 r) ! 1 = r ! 5"
    using assms(1,4) by simp_all
  with assms(5) show ?thesis
    unfolding Decode_complete [OF assms(1-4)] Let_def by simp
qed

text \<open>
  The frame of the marker test, encoded and then corrupted in both marker bytes; and an
  input with one marker byte wrong whose version and type bytes are invalid too.
\<close>

theorem Decode_rejects_magic_witness:
  "Decode ((snd (Encode buffer_Write []
       \<lparr>Version = 1, Type = 1, Flags = 0, StreamID = 0, Payload = [0x74, 0x65, 0x73, 0x74]\<rparr>))
       [4 := 0xFF, 5 := 0xFF])
     = (Inl (PErr \<lparr>Code = 1003, Msg = ''invalid magic marker''\<rparr>), [])
   \<and> Decode [0x00, 0x00, 0x00, 0x09, 0x52, 0x55, 0x02, 0x09, 0x00, 0x00, 0x00, 0x00, 0x00]
     = (Inl (PErr \<lparr>Code = 1003, Msg = ''invalid magic marker''\<rparr>), [])"
proof -
  have enc: "snd (Encode buffer_Write []
       \<lparr>Version = 1, Type = 1, Flags = 0, StreamID = 0, Payload = [0x74, 0x65, 0x73, 0x74]\<rparr>)
     = [0x00, 0x00, 0x00, 0x0D, 0x52, 0x54, 0x01, 0x01, 0x00, 0x00, 0x00, 0x00, 0x00,
        0x74, 0x65, 0x73, 0x74]"
    by (simp add: Encode_def binary_Write_def buffer_Write_def PutUint32_def HeaderSize_def
        MaxFrameSize_def Version_const_def Magic0_def Magic1_def)
  show ?thesis
    unfolding enc
    using Decode_rejects_magic
            [of "[0x00, 0x00, 0x00, 0x0D, 0xFF, 0xFF, 0x01, 0x01, 0x00, 0x00, 0x00, 0x00, 0x00,
                  0x74, 0x65, 0x73, 0x74]"]
          Decode_rejects_magic
            [of "[0x00, 0x00, 0x00, 0x09, 0x52, 0x55, 0x02, 0x09, 0x00, 0x00, 0x00, 0x00, 0x00]"]
    by (simp add: HeaderSize_def MaxFrameSize_def Magic0_def Magic1_def NewError_def
        ErrCodeBadFrame_def)
qed

text \<open>
  C7. For every input that holds the length bytes, a declared length in range and the
  bytes it declares, with the marker \<open>0x52 0x54\<close> and the version 1, whose type byte is
  none of \<open>0x01\<close> to \<open>0x05\<close>, \<open>Decode\<close> fails with \<open>ErrCodeBadFrame\<close>
  ("invalid frame type").
\<close>

theorem Decode_rejects_unknown_type:
  assumes "4 \<le> length r"
    and "HeaderSize \<le> unat (Uint32 (take 4 r))"
    and "unat (Uint32 (take 4 r)) \<le> MaxFrameSize"
    and "4 + unat (Uint32 (take 4 r)) \<le> length r"
    and "r ! 4 = 0x52" and "r ! 5 = 0x54"
    and "r ! 6 = 1"
    and "r ! 7 \<notin> {0x01, 0x02, 0x03, 0x04, 0x05}"
  shows "Decode r = (Inl (PErr (NewError ErrCodeBadFrame ''invalid frame type'')),
                     drop (4 + unat (Uint32 (take 4 r))) r)"
proof -
  let ?n = "unat (Uint32 (take 4 r))"
  from assms(2) have "0 < ?n" "1 < ?n" "2 < ?n" "3 < ?n"
    by (simp_all add: HeaderSize_def)
  then have "take ?n (drop 4 r) ! 0 = r ! 4" "take ?n (drop 4 r) ! 1 = r ! 5"
    "take ?n (drop 4 r) ! 2 = r ! 6" "take ?n (drop 4 r) ! 3 = r ! 7"
    using assms(1,4) by simp_all
  with assms(5-8) show ?thesis
    unfolding Decode_complete [OF assms(1-4)] Let_def
    by (simp add: IsValidFrameType_iff Magic0_def Magic1_def Version_const_def)
qed

theorem Decode_rejects_unknown_type_witness:
  "Decode [0x00, 0x00, 0x00, 0x0A, 0x52, 0x54, 0x01, 0x06, 0x00, 0x00, 0x00, 0x00, 0x01, 0x41]
     = (Inl (PErr \<lparr>Code = 1003, Msg = ''invalid frame type''\<rparr>), [])
   \<and> Decode [0x00, 0x00, 0x00, 0x09, 0x52, 0x54, 0x01, 0x00, 0x00, 0x00, 0x00, 0x00, 0x00, 0x99]
     = (Inl (PErr \<lparr>Code = 1003, Msg = ''invalid frame type''\<rparr>), [0x99])"
  using Decode_rejects_unknown_type
          [of "[0x00, 0x00, 0x00, 0x0A, 0x52, 0x54, 0x01, 0x06, 0x00, 0x00, 0x00, 0x00, 0x01, 0x41]"]
        Decode_rejects_unknown_type
          [of "[0x00, 0x00, 0x00, 0x09, 0x52, 0x54, 0x01, 0x00, 0x00, 0x00, 0x00, 0x00, 0x00, 0x99]"]
  by (simp add: HeaderSize_def MaxFrameSize_def NewError_def ErrCodeBadFrame_def)

section \<open>Decode: truncated input\<close>

text \<open>
  C8, as stated, fails: the four bytes \<open>00 00 00 01\<close> are shorter than 4 plus the
  length they declare, and \<open>Decode\<close> fails with a protocol error (\<open>ErrCodeBadFrame\<close>,
  "invalid frame size"), not with an end-of-input condition: the declared length is
  validated before the body is read.
\<close>

theorem Decode_short_input_bad_length:
  "length [0x00, 0x00, 0x00, 0x01 :: byte] < 4 + unat (Uint32 [0x00, 0x00, 0x00, 0x01])
   \<and> fst (Decode [0x00, 0x00, 0x00, 0x01])
       = Inl (PErr \<lparr>Code = ErrCodeBadFrame, Msg = ''invalid frame size''\<rparr>)
   \<and> IsProtocolError (Some (PErr \<lparr>Code = ErrCodeBadFrame, Msg = ''invalid frame size''\<rparr>))
       = (Some \<lparr>Code = ErrCodeBadFrame, Msg = ''invalid frame size''\<rparr>, True)"
  by (simp add: Decode_def binary_Read_def ReadFull_def MaxFrameSize_def HeaderSize_def
      NewError_def)

text \<open>
  C8, amended. For every input that is shorter than the four length bytes, or that
  declares a length between \<open>HeaderSize\<close> and \<open>MaxFrameSize\<close> and is shorter than 4 plus
  that length, \<open>Decode\<close> fails with an end-of-input error of package \<^verbatim>\<open>io\<close>, which is
  not a protocol error: \<^verbatim>\<open>io.EOF\<close> when the input is empty or ends right after the
  length bytes, \<^verbatim>\<open>io.ErrUnexpectedEOF\<close> when it ends inside the length bytes or inside
  the body.
\<close>

theorem Decode_truncated_end_of_input:
  assumes "length r < 4
     \<or> (HeaderSize \<le> unat (Uint32 (take 4 r)) \<and> unat (Uint32 (take 4 r)) \<le> MaxFrameSize
        \<and> length r < 4 + unat (Uint32 (take 4 r)))"
  shows "Decode r = (Inl (if r = [] \<or> length r = 4 then EOF else ErrUnexpectedEOF), [])
     \<and> IsProtocolError (Some (if r = [] \<or> length r = 4 then EOF else ErrUnexpectedEOF))
         = (None, False)"
proof (cases "length r < 4")
  case True
  then show ?thesis
    by (auto simp add: Decode_def binary_Read_def ReadFull_def)
next
  case False
  then have len4: "4 \<le> length r" by simp
  with assms have lo: "HeaderSize \<le> unat (Uint32 (take 4 r))"
    and hi: "unat (Uint32 (take 4 r)) \<le> MaxFrameSize"
    and short: "length r < 4 + unat (Uint32 (take 4 r))"
    by auto
  from short len4 have "\<not> unat (Uint32 (take 4 r)) \<le> length (drop 4 r)"
    by simp
  then have "ReadFull (drop 4 r) (unat (Uint32 (take 4 r)))
      = (Inl (if length r = 4 then EOF else ErrUnexpectedEOF), [])"
    using len4 by (auto simp add: ReadFull_def)
  with lo hi len4 show ?thesis
    by (auto simp add: Decode_def binary_Read_ok)
qed

text \<open>
  The incomplete frame of the tests (32 bytes declared, 9 present), the length field
  alone, half a length field, and the empty input.
\<close>

theorem Decode_truncated_end_of_input_witness:
  "Decode [0x00, 0x00, 0x00, 0x20, 0x52, 0x54, 0x01, 0x01, 0x00, 0x00, 0x00, 0x00, 0x00]
     = (Inl ErrUnexpectedEOF, [])
   \<and> Decode [0x00, 0x00, 0x00, 0x09] = (Inl EOF, [])
   \<and> Decode [0x00, 0x00] = (Inl ErrUnexpectedEOF, [])
   \<and> Decode [] = (Inl EOF, [])"
  using Decode_truncated_end_of_input
          [of "[0x00, 0x00, 0x00, 0x20, 0x52, 0x54, 0x01, 0x01, 0x00, 0x00, 0x00, 0x00, 0x00]"]
        Decode_truncated_end_of_input [of "[0x00, 0x00, 0x00, 0x09]"]
        Decode_truncated_end_of_input [of "[0x00, 0x00]"]
        Decode_truncated_end_of_input [of "[]"]
  by (simp add: HeaderSize_def MaxFrameSize_def)

section \<open>Classification and flags\<close>

text \<open>
  C9. For every frame, \<open>IsControlFrame\<close> holds exactly when the stream ID is 0 and
  \<open>IsDataStream\<close> exactly when it is greater than 0; exactly one of the two holds. Both
  are total functions of the frame that return a boolean and nothing else.
\<close>

theorem classification_complementary:
  "IsControlFrame f = (StreamID f = 0)
   \<and> IsDataStream f = (0 < StreamID f)
   \<and> IsControlFrame f = (\<not> IsDataStream f)"
  by (simp add: IsControlFrame_def IsDataStream_def StreamIDControl_def word_greater_zero_iff)

text \<open>
  C10. \<open>HasFlag\<close> with \<open>FlagNone\<close> (the byte 0) is false for every frame, also for a
  frame whose flags byte is 0: it does not test that no flag is set.
\<close>

theorem HasFlag_FlagNone_false:
  "HasFlag f FlagNone = False \<and> HasFlag (f\<lparr>Flags := 0\<rparr>) FlagNone = False"
  by (simp add: HasFlag_def FlagNone_def)

end
